theory Spec2Isabelle
  imports Main "HOL-Library.Word" "HOL-Library.Sublist"
begin

section \<open>NEON layer support: data model\<close>

text \<open>
  The element data types of a tensor. The sources name \<open>Float32\<close> and
  \<open>QuantisedAsymm8\<close> and select a sentinel for 16-bit floats (\<open>FalseFuncF16\<close>); the
  enumeration itself is declared outside the two files, so every further member is
  gathered under \<open>OtherDataType\<close>.
\<close>

datatype DataType = Float16 | Float32 | QuantisedAsymm8 | OtherDataType

text \<open>
  \<open>TensorInfo\<close>: the fields read through \<open>GetDataType()\<close> and \<open>GetShape()\<close>.
  Dimension sizes are \<open>unsigned int\<close>.
\<close>

record TensorInfo =
  m_DataType :: DataType
  m_Shape :: "32 word list"

text \<open>The fields of \<open>Convolution2dDescriptor\<close> read by the preference heuristic.\<close>

record Convolution2dDescriptor =
  m_PadLeft :: "32 word"
  m_PadRight :: "32 word"
  m_PadTop :: "32 word"
  m_PadBottom :: "32 word"
  m_StrideX :: "32 word"
  m_StrideY :: "32 word"
  m_BiasEnabled :: bool

datatype NormalizationAlgorithmMethod = LocalBrightness | LocalContrast

text \<open>The fields of \<open>NormalizationDescriptor\<close> read by the parameter predicate.\<close>

record NormalizationDescriptor =
  m_NormMethodType :: NormalizationAlgorithmMethod
  m_NormSize :: "32 word"

text \<open>
  \<open>arm_compute::Status\<close>: an error code and a description. The sources name the codes
  \<open>OK\<close> and \<open>RUNTIME_ERROR\<close>.
\<close>

datatype ErrorCode = OK | RUNTIME_ERROR

record Status =
  error_code :: ErrorCode
  error_description :: string

text \<open>
  \<open>arm_compute::ActivationLayerInfo\<close>, read through \<open>activation()\<close>. Of the kernel
  library's activation functions the sources name \<open>LOGISTIC\<close> only.
\<close>

datatype AclActivationFunction = LOGISTIC | TANH | RELU | LINEAR

record ActivationLayerInfo =
  activation :: AclActivationFunction

section \<open>Faults and the reason output parameter\<close>

text \<open>
  What the C++ does beyond returning a value is written into the result: storing
  through a null \<open>std::string*\<close>, reading a shape or a vector past its end, and
  reading through a null \<open>TensorInfo*\<close> are faults.
\<close>

datatype fault = NullReasonDereference | IndexOutOfRange | NullTensorDereference

text \<open>
  The parameter \<open>std::string* reasonIfUnsupported\<close>: \<open>None\<close> is \<open>nullptr\<close>,
  \<open>Some s\<close> points at a string of the caller that holds \<open>s\<close>. A predicate returns
  its boolean together with the parameter as it is left on return.
\<close>

type_synonym reason_out = "string option"

type_synonym verdict = "fault + (bool \<times> reason_out)"

text \<open>\<open>*reasonIfUnsupported = s\<close>, without any guard.\<close>

fun store :: "reason_out \<Rightarrow> string \<Rightarrow> fault + reason_out" where
  "store None s = Inl NullReasonDereference"
| "store (Some old) s = Inr (Some s)"

text \<open>\<open>return b\<close> after a store that may have faulted.\<close>

definition returning :: "bool \<Rightarrow> fault + reason_out \<Rightarrow> verdict" where
  "returning b stored = (case stored of Inl e \<Rightarrow> Inl e | Inr r \<Rightarrow> Inr (b, r))"

text \<open>
  \<open>GetShape()[i]\<close>. The accessor is declared outside the two files; an index at or
  beyond the number of dimensions is modelled as a fault, so that it never yields a
  dimension size.
\<close>

definition shape_at :: "32 word list \<Rightarrow> nat \<Rightarrow> fault + 32 word" where
  "shape_at shape i = (if i < length shape then Inr (shape ! i) else Inl IndexOutOfRange)"

section \<open>NeonLayerSupport.cpp\<close>

subsection \<open>IsNeonDirectConvolutionPreferred\<close>

text \<open>The lambda \<open>paddingLargerThan\<close>; the comparison is the one of \<open>unsigned int\<close>.\<close>

definition paddingLargerThan :: "Convolution2dDescriptor \<Rightarrow> 32 word \<Rightarrow> bool" where
  "paddingLargerThan conv2ddesc val =
     (m_PadLeft conv2ddesc > val \<or> m_PadRight conv2ddesc > val \<or>
      m_PadTop conv2ddesc > val \<or> m_PadBottom conv2ddesc > val)"

text \<open>
  \<open>sizeAndPaddingSupported\<close> is computed whatever the data type and the strides are;
  within it \<open>&&\<close> reads \<open>GetShape()[3]\<close> only when \<open>GetShape()[2] == 1\<close>.
\<close>

definition IsNeonDirectConvolutionPreferred ::
  "TensorInfo \<Rightarrow> Convolution2dDescriptor \<Rightarrow> fault + bool" where
  "IsNeonDirectConvolutionPreferred weightInfo desc =
     (let dataTypeSupported = (m_DataType weightInfo = Float32);
          strideSupported =
            ((m_StrideX desc = 1 \<or> m_StrideX desc = 2 \<or> m_StrideX desc = 3) \<and>
             (m_StrideY desc = 1 \<or> m_StrideY desc = 2 \<or> m_StrideY desc = 3))
      in case shape_at (m_Shape weightInfo) 2 of
           Inl e \<Rightarrow> Inl e
         | Inr h \<Rightarrow>
             if h = 1 then
               (case shape_at (m_Shape weightInfo) 3 of
                  Inl e \<Rightarrow> Inl e
                | Inr w \<Rightarrow>
                    (let sizeAndPaddingSupported = (w = 1 \<and> \<not> paddingLargerThan desc 0)
                     in Inr (dataTypeSupported \<and> strideSupported \<and>
                             sizeAndPaddingSupported \<and> m_BiasEnabled desc)))
             else
               (let sizeAndPaddingSupported = False
                in Inr (dataTypeSupported \<and> strideSupported \<and>
                        sizeAndPaddingSupported \<and> m_BiasEnabled desc)))"

subsection \<open>IsNeonNormalizationDescParamsSupported\<close>

definition IsNeonNormalizationDescParamsSupported ::
  "reason_out \<Rightarrow> NormalizationDescriptor \<Rightarrow> verdict" where
  "IsNeonNormalizationDescParamsSupported reasonIfUnsupported parameters =
     (if m_NormMethodType parameters \<noteq> LocalBrightness then
        (if reasonIfUnsupported \<noteq> None then
           returning False (store reasonIfUnsupported
             ''Unsupported normalisation method type, only LocalBrightness is supported'')
         else Inr (False, reasonIfUnsupported))
      else if m_NormSize parameters mod 2 = 0 then
        (if reasonIfUnsupported \<noteq> None then
           returning False (store reasonIfUnsupported
             ''Normalization size must be an odd number.'')
         else Inr (False, reasonIfUnsupported))
      else Inr (True, reasonIfUnsupported))"

subsection \<open>IsNeonBackendSupported\<close>

text \<open>
  The preprocessor symbol \<open>ARMCOMPUTENEON_ENABLED\<close> is the first parameter \<open>neon\<close>
  of every function whose body depends on it.
\<close>

definition IsNeonBackendSupported :: "bool \<Rightarrow> reason_out \<Rightarrow> verdict" where
  "IsNeonBackendSupported neon reasonIfUnsupported =
     (if neon then Inr (True, reasonIfUnsupported)
      else if reasonIfUnsupported \<noteq> None then
        returning False (store reasonIfUnsupported
          ''The armnn library has been built without NEON support'')
      else Inr (False, reasonIfUnsupported))"

subsection \<open>IsWorkloadSupported and FORWARD_WORKLOAD_VALIDATE_FUNC\<close>

text \<open>
  \<open>func\<close> is a validate entry point that takes the forwarded arguments (a tuple) and
  returns the kernel library's status.
\<close>

definition IsWorkloadSupported :: "('args \<Rightarrow> Status) \<Rightarrow> reason_out \<Rightarrow> 'args \<Rightarrow> verdict" where
  "IsWorkloadSupported func reasonIfUnsupported args =
     (let aclStatus = func args;
          supported = (error_code aclStatus = OK)
      in if \<not> supported \<and> reasonIfUnsupported \<noteq> None then
           returning supported (store reasonIfUnsupported (error_description aclStatus))
         else Inr (supported, reasonIfUnsupported))"

definition FORWARD_WORKLOAD_VALIDATE_FUNC ::
  "bool \<Rightarrow> ('args \<Rightarrow> Status) \<Rightarrow> reason_out \<Rightarrow> 'args \<Rightarrow> verdict" where
  "FORWARD_WORKLOAD_VALIDATE_FUNC neon func reasonIfUnsupported args =
     (if neon then IsWorkloadSupported func reasonIfUnsupported args
      else IsNeonBackendSupported neon reasonIfUnsupported)"

subsection \<open>The data-type dispatch helper\<close>

text \<open>
  Modelled from the spec: \<open>IsSupportedForDataTypeGeneric\<close> and the sentinels
  \<open>TrueFunc\<close>, \<open>FalseFuncF16\<close> and \<open>FalseFuncU8\<close> are declared in
  \<open>LayerSupportCommon.hpp\<close>, which is not among the sources. The spec describes the
  helper as "a generic routine accepting one function pointer per supported data
  type category and invoking the one matching a given tensor's declared type", which
  rejects "unknown/unlisted data types by default", and the functions supplied to it
  as "always true" or "always false" sentinels. The order of the function pointers
  (16-bit float, 32-bit float, 8-bit quantized) is the one of the two calls in
  \<open>NeonLayerSupport.cpp\<close>. The spec gives the sentinels no diagnostic, so they
  leave the reason parameter as it is.
\<close>

definition IsSupportedForDataTypeGeneric ::
  "reason_out \<Rightarrow> DataType \<Rightarrow> (reason_out \<Rightarrow> verdict) \<Rightarrow> (reason_out \<Rightarrow> verdict) \<Rightarrow>
   (reason_out \<Rightarrow> verdict) \<Rightarrow> verdict" where
  "IsSupportedForDataTypeGeneric reasonIfUnsupported dataType
       float16FuncPtr float32FuncPtr uint8FuncPtr =
     (case dataType of
        Float16 \<Rightarrow> float16FuncPtr reasonIfUnsupported
      | Float32 \<Rightarrow> float32FuncPtr reasonIfUnsupported
      | QuantisedAsymm8 \<Rightarrow> uint8FuncPtr reasonIfUnsupported
      | OtherDataType \<Rightarrow> Inr (False, reasonIfUnsupported))"

definition TrueFunc :: "reason_out \<Rightarrow> verdict" where
  "TrueFunc reasonIfUnsupported = Inr (True, reasonIfUnsupported)"

definition FalseFuncF16 :: "reason_out \<Rightarrow> verdict" where
  "FalseFuncF16 reasonIfUnsupported = Inr (False, reasonIfUnsupported)"

definition FalseFuncU8 :: "reason_out \<Rightarrow> verdict" where
  "FalseFuncU8 reasonIfUnsupported = Inr (False, reasonIfUnsupported)"

text \<open>
  \<open>a && b\<close> on two calls that share the reason parameter: \<open>b\<close> runs only when
  \<open>a\<close> returned true, on the parameter as \<open>a\<close> left it.
\<close>

definition and_also :: "verdict \<Rightarrow> (reason_out \<Rightarrow> verdict) \<Rightarrow> verdict" where
  "and_also a b =
     (case a of Inl e \<Rightarrow> Inl e | Inr (ok, r) \<Rightarrow> if ok then b r else Inr (False, r))"

definition IsSupportedForDataTypeNeon ::
  "bool \<Rightarrow> reason_out \<Rightarrow> DataType \<Rightarrow> (reason_out \<Rightarrow> verdict) \<Rightarrow> (reason_out \<Rightarrow> verdict) \<Rightarrow>
   verdict" where
  "IsSupportedForDataTypeNeon neon reasonIfUnsupported dataType floatFuncPtr uint8FuncPtr =
     and_also (IsNeonBackendSupported neon reasonIfUnsupported)
       (\<lambda>r. IsSupportedForDataTypeGeneric r dataType floatFuncPtr floatFuncPtr uint8FuncPtr)"

subsection \<open>NeonActivationWorkloadValidate (NeonActivationFloat32Workload.cpp)\<close>

text \<open>
  \<open>BuildArmComputeTensorInfo\<close> and
  \<open>ConvertActivationDescriptorToAclActivationLayerInfo\<close> are declared outside the
  two files and \<open>NEActivationLayer::validate\<close> belongs to the kernel library: the
  three are parameters. The activation descriptor is only handed to the conversion,
  so its type is a parameter too.
\<close>

definition NeonActivationWorkloadValidate ::
  "(TensorInfo \<Rightarrow> 'acl) \<Rightarrow> ('desc \<Rightarrow> ActivationLayerInfo) \<Rightarrow>
   ('acl \<times> 'acl \<times> ActivationLayerInfo \<Rightarrow> Status) \<Rightarrow>
   TensorInfo \<times> TensorInfo \<times> 'desc \<Rightarrow> Status" where
  "NeonActivationWorkloadValidate BuildArmComputeTensorInfo
       ConvertActivationDescriptorToAclActivationLayerInfo NEActivationLayer_validate args =
     (case args of (input, output, descriptor) \<Rightarrow>
       (let aclInput = BuildArmComputeTensorInfo input;
            aclOutput = BuildArmComputeTensorInfo output;
            activationLayerInfo = ConvertActivationDescriptorToAclActivationLayerInfo descriptor
        in if m_DataType input = QuantisedAsymm8 \<and> activation activationLayerInfo = LOGISTIC
           then \<lparr>error_code = RUNTIME_ERROR,
                 error_description =
                   ''Neon: Logistic Activations unsupported with QAsymm8 data type.''\<rparr>
           else NEActivationLayer_validate (aclInput, aclOutput, activationLayerInfo)))"

subsection \<open>The predicates, one per layer kind\<close>

text \<open>
  A predicate that forwards to a validate function takes that function as the
  parameter after \<open>neon\<close>; a descriptor that the predicate only passes on or ignores
  has a type parameter.
\<close>

definition IsActivationSupportedNeon ::
  "bool \<Rightarrow> (TensorInfo \<Rightarrow> 'acl) \<Rightarrow> ('desc \<Rightarrow> ActivationLayerInfo) \<Rightarrow>
   ('acl \<times> 'acl \<times> ActivationLayerInfo \<Rightarrow> Status) \<Rightarrow>
   TensorInfo \<Rightarrow> TensorInfo \<Rightarrow> 'desc \<Rightarrow> reason_out \<Rightarrow> verdict" where
  "IsActivationSupportedNeon neon BuildArmComputeTensorInfo
       ConvertActivationDescriptorToAclActivationLayerInfo NEActivationLayer_validate
       input output descriptor reasonIfUnsupported =
     FORWARD_WORKLOAD_VALIDATE_FUNC neon
       (NeonActivationWorkloadValidate BuildArmComputeTensorInfo
          ConvertActivationDescriptorToAclActivationLayerInfo NEActivationLayer_validate)
       reasonIfUnsupported (input, output, descriptor)"

definition IsAdditionSupportedNeon ::
  "bool \<Rightarrow> (TensorInfo \<times> TensorInfo \<times> TensorInfo \<Rightarrow> Status) \<Rightarrow>
   TensorInfo \<Rightarrow> TensorInfo \<Rightarrow> TensorInfo \<Rightarrow> reason_out \<Rightarrow> verdict" where
  "IsAdditionSupportedNeon neon NeonAdditionWorkloadValidate input0 input1 output
       reasonIfUnsupported =
     FORWARD_WORKLOAD_VALIDATE_FUNC neon NeonAdditionWorkloadValidate
       reasonIfUnsupported (input0, input1, output)"

definition IsBatchNormalizationSupportedNeon ::
  "bool \<Rightarrow>
   (TensorInfo \<times> TensorInfo \<times> TensorInfo \<times> TensorInfo \<times> TensorInfo \<times> TensorInfo \<times> 'desc
      \<Rightarrow> Status) \<Rightarrow>
   TensorInfo \<Rightarrow> TensorInfo \<Rightarrow> TensorInfo \<Rightarrow> TensorInfo \<Rightarrow> TensorInfo \<Rightarrow> TensorInfo \<Rightarrow>
   'desc \<Rightarrow> reason_out \<Rightarrow> verdict" where
  "IsBatchNormalizationSupportedNeon neon NeonBatchNormalizationValidate
       input output mean var beta gamma descriptor reasonIfUnsupported =
     FORWARD_WORKLOAD_VALIDATE_FUNC neon NeonBatchNormalizationValidate
       reasonIfUnsupported (input, output, mean, var, beta, gamma, descriptor)"

definition IsConstantSupportedNeon :: "bool \<Rightarrow> TensorInfo \<Rightarrow> reason_out \<Rightarrow> verdict" where
  "IsConstantSupportedNeon neon output reasonIfUnsupported =
     IsSupportedForDataTypeNeon neon reasonIfUnsupported (m_DataType output) TrueFunc TrueFunc"

definition IsConvolution2dSupportedNeon ::
  "bool \<Rightarrow>
   (TensorInfo \<times> TensorInfo \<times> Convolution2dDescriptor \<times> TensorInfo \<times> TensorInfo \<Rightarrow> Status) \<Rightarrow>
   TensorInfo \<Rightarrow> TensorInfo \<Rightarrow> Convolution2dDescriptor \<Rightarrow> TensorInfo \<Rightarrow> TensorInfo \<Rightarrow>
   reason_out \<Rightarrow> verdict" where
  "IsConvolution2dSupportedNeon neon NeonConvolution2dWorkloadValidate
       input output descriptor weights biases reasonIfUnsupported =
     FORWARD_WORKLOAD_VALIDATE_FUNC neon NeonConvolution2dWorkloadValidate
       reasonIfUnsupported (input, output, descriptor, weights, biases)"

definition IsDepthwiseConvolutionSupportedNeon ::
  "bool \<Rightarrow> (TensorInfo \<times> TensorInfo \<times> 'desc \<times> TensorInfo \<times> TensorInfo \<Rightarrow> Status) \<Rightarrow>
   TensorInfo \<Rightarrow> TensorInfo \<Rightarrow> 'desc \<Rightarrow> TensorInfo \<Rightarrow> TensorInfo \<Rightarrow>
   reason_out \<Rightarrow> verdict" where
  "IsDepthwiseConvolutionSupportedNeon neon NeonDepthwiseConvolutionWorkloadValidate
       input output descriptor weights biases reasonIfUnsupported =
     FORWARD_WORKLOAD_VALIDATE_FUNC neon NeonDepthwiseConvolutionWorkloadValidate
       reasonIfUnsupported (input, output, descriptor, weights, biases)"

text \<open>The test on the input's data type comes before the macro, in both builds.\<close>

definition IsFullyConnectedSupportedNeon ::
  "bool \<Rightarrow> (TensorInfo \<times> TensorInfo \<times> TensorInfo \<times> TensorInfo \<times> 'desc \<Rightarrow> Status) \<Rightarrow>
   TensorInfo \<Rightarrow> TensorInfo \<Rightarrow> TensorInfo \<Rightarrow> TensorInfo \<Rightarrow> 'desc \<Rightarrow>
   reason_out \<Rightarrow> verdict" where
  "IsFullyConnectedSupportedNeon neon NeonFullyConnectedWorkloadValidate
       input output weights biases descriptor reasonIfUnsupported =
     (if m_DataType input = QuantisedAsymm8 then Inr (False, reasonIfUnsupported)
      else FORWARD_WORKLOAD_VALIDATE_FUNC neon NeonFullyConnectedWorkloadValidate
             reasonIfUnsupported (input, output, weights, biases, descriptor))"

definition IsInputSupportedNeon :: "bool \<Rightarrow> TensorInfo \<Rightarrow> reason_out \<Rightarrow> verdict" where
  "IsInputSupportedNeon neon input reasonIfUnsupported =
     IsSupportedForDataTypeNeon neon reasonIfUnsupported (m_DataType input) TrueFunc TrueFunc"

definition IsL2NormalizationSupportedNeon ::
  "bool \<Rightarrow> (TensorInfo \<times> TensorInfo \<Rightarrow> Status) \<Rightarrow> TensorInfo \<Rightarrow> TensorInfo \<Rightarrow>
   reason_out \<Rightarrow> verdict" where
  "IsL2NormalizationSupportedNeon neon NeonL2NormalizationWorkloadValidate input output
       reasonIfUnsupported =
     FORWARD_WORKLOAD_VALIDATE_FUNC neon NeonL2NormalizationWorkloadValidate
       reasonIfUnsupported (input, output)"

text \<open>
  \<open>inputs\<close> is a vector of pointers: an element is \<open>None\<close> when it is null. The
  argument \<open>inputs[0]->GetDataType()\<close> is evaluated before the call, in both builds.
\<close>

definition IsMergerSupportedNeon ::
  "bool \<Rightarrow> TensorInfo option list \<Rightarrow> 'desc \<Rightarrow> reason_out \<Rightarrow> verdict" where
  "IsMergerSupportedNeon neon inputs descriptor reasonIfUnsupported =
     (case inputs of
        [] \<Rightarrow> Inl IndexOutOfRange
      | None # _ \<Rightarrow> Inl NullTensorDereference
      | Some input0 # _ \<Rightarrow>
          IsSupportedForDataTypeNeon neon reasonIfUnsupported (m_DataType input0)
            TrueFunc TrueFunc)"

definition IsMultiplicationSupportedNeon ::
  "bool \<Rightarrow> (TensorInfo \<times> TensorInfo \<times> TensorInfo \<Rightarrow> Status) \<Rightarrow>
   TensorInfo \<Rightarrow> TensorInfo \<Rightarrow> TensorInfo \<Rightarrow> reason_out \<Rightarrow> verdict" where
  "IsMultiplicationSupportedNeon neon NeonMultiplicationWorkloadValidate input0 input1 output
       reasonIfUnsupported =
     FORWARD_WORKLOAD_VALIDATE_FUNC neon NeonMultiplicationWorkloadValidate
       reasonIfUnsupported (input0, input1, output)"

definition IsNormalizationSupportedNeon ::
  "bool \<Rightarrow> (TensorInfo \<times> TensorInfo \<times> NormalizationDescriptor \<Rightarrow> Status) \<Rightarrow>
   TensorInfo \<Rightarrow> TensorInfo \<Rightarrow> NormalizationDescriptor \<Rightarrow> reason_out \<Rightarrow> verdict" where
  "IsNormalizationSupportedNeon neon NeonNormalizationWorkloadValidate input output descriptor
       reasonIfUnsupported =
     FORWARD_WORKLOAD_VALIDATE_FUNC neon NeonNormalizationWorkloadValidate
       reasonIfUnsupported (input, output, descriptor)"

definition IsOutputSupportedNeon :: "bool \<Rightarrow> TensorInfo \<Rightarrow> reason_out \<Rightarrow> verdict" where
  "IsOutputSupportedNeon neon output reasonIfUnsupported =
     IsSupportedForDataTypeNeon neon reasonIfUnsupported (m_DataType output) TrueFunc TrueFunc"

definition IsPermuteSupportedNeon ::
  "bool \<Rightarrow> (TensorInfo \<times> TensorInfo \<times> 'desc \<Rightarrow> Status) \<Rightarrow>
   TensorInfo \<Rightarrow> TensorInfo \<Rightarrow> 'desc \<Rightarrow> reason_out \<Rightarrow> verdict" where
  "IsPermuteSupportedNeon neon NeonPermuteWorkloadValidate input output descriptor
       reasonIfUnsupported =
     FORWARD_WORKLOAD_VALIDATE_FUNC neon NeonPermuteWorkloadValidate
       reasonIfUnsupported (input, output, descriptor)"

definition IsPooling2dSupportedNeon ::
  "bool \<Rightarrow> (TensorInfo \<times> TensorInfo \<times> 'desc \<Rightarrow> Status) \<Rightarrow>
   TensorInfo \<Rightarrow> TensorInfo \<Rightarrow> 'desc \<Rightarrow> reason_out \<Rightarrow> verdict" where
  "IsPooling2dSupportedNeon neon NeonPooling2dWorkloadValidate input output descriptor
       reasonIfUnsupported =
     FORWARD_WORKLOAD_VALIDATE_FUNC neon NeonPooling2dWorkloadValidate
       reasonIfUnsupported (input, output, descriptor)"

definition IsResizeBilinearSupportedNeon :: "TensorInfo \<Rightarrow> reason_out \<Rightarrow> verdict" where
  "IsResizeBilinearSupportedNeon input reasonIfUnsupported = Inr (False, reasonIfUnsupported)"

definition IsSoftmaxSupportedNeon ::
  "bool \<Rightarrow> (TensorInfo \<times> TensorInfo \<times> 'desc \<Rightarrow> Status) \<Rightarrow>
   TensorInfo \<Rightarrow> TensorInfo \<Rightarrow> 'desc \<Rightarrow> reason_out \<Rightarrow> verdict" where
  "IsSoftmaxSupportedNeon neon NeonSoftmaxWorkloadValidate input output descriptor
       reasonIfUnsupported =
     FORWARD_WORKLOAD_VALIDATE_FUNC neon NeonSoftmaxWorkloadValidate
       reasonIfUnsupported (input, output, descriptor)"

definition IsSplitterSupportedNeon ::
  "bool \<Rightarrow> TensorInfo \<Rightarrow> 'desc \<Rightarrow> reason_out \<Rightarrow> verdict" where
  "IsSplitterSupportedNeon neon input descriptor reasonIfUnsupported =
     IsSupportedForDataTypeNeon neon reasonIfUnsupported (m_DataType input) TrueFunc TrueFunc"

definition IsFakeQuantizationSupportedNeon ::
  "TensorInfo \<Rightarrow> 'desc \<Rightarrow> reason_out \<Rightarrow> verdict" where
  "IsFakeQuantizationSupportedNeon input descriptor reasonIfUnsupported =
     Inr (False, reasonIfUnsupported)"

definition IsReshapeSupportedNeon :: "bool \<Rightarrow> TensorInfo \<Rightarrow> reason_out \<Rightarrow> verdict" where
  "IsReshapeSupportedNeon neon input reasonIfUnsupported =
     IsSupportedForDataTypeNeon neon reasonIfUnsupported (m_DataType input) TrueFunc TrueFunc"

definition IsFloorSupportedNeon ::
  "bool \<Rightarrow> TensorInfo \<Rightarrow> TensorInfo \<Rightarrow> reason_out \<Rightarrow> verdict" where
  "IsFloorSupportedNeon neon input output reasonIfUnsupported =
     and_also (IsNeonBackendSupported neon reasonIfUnsupported)
       (\<lambda>r. IsSupportedForDataTypeGeneric r (m_DataType input)
               FalseFuncF16 TrueFunc FalseFuncU8)"

text \<open>The eight \<open>const TensorInfo*\<close> parameters are \<open>None\<close> when null.\<close>

definition IsLstmSupportedNeon ::
  "TensorInfo \<Rightarrow> TensorInfo \<Rightarrow> TensorInfo \<Rightarrow> TensorInfo \<Rightarrow> TensorInfo \<Rightarrow> TensorInfo \<Rightarrow>
   TensorInfo \<Rightarrow> 'desc \<Rightarrow>
   TensorInfo \<Rightarrow> TensorInfo \<Rightarrow> TensorInfo \<Rightarrow> TensorInfo \<Rightarrow> TensorInfo \<Rightarrow> TensorInfo \<Rightarrow>
   TensorInfo \<Rightarrow> TensorInfo \<Rightarrow> TensorInfo \<Rightarrow>
   TensorInfo option \<Rightarrow> TensorInfo option \<Rightarrow> TensorInfo option \<Rightarrow> TensorInfo option \<Rightarrow>
   TensorInfo option \<Rightarrow> TensorInfo option \<Rightarrow> TensorInfo option \<Rightarrow> TensorInfo option \<Rightarrow>
   reason_out \<Rightarrow> verdict" where
  "IsLstmSupportedNeon input outputStateIn cellStateIn scratchBuffer outputStateOut
       cellStateOut output descriptor
       inputToForgetWeights inputToCellWeights inputToOutputWeights
       recurrentToForgetWeights recurrentToCellWeights recurrentToOutputWeights
       forgetGateBias cellBias outputGateBias
       inputToInputWeights recurrentToInputWeights cellToInputWeights inputGateBias
       projectionWeights projectionBias cellToForgetWeights cellToOutputWeights
       reasonIfUnsupported =
     Inr (False, reasonIfUnsupported)"

definition IsConvertFp16ToFp32SupportedNeon ::
  "TensorInfo \<Rightarrow> TensorInfo \<Rightarrow> reason_out \<Rightarrow> verdict" where
  "IsConvertFp16ToFp32SupportedNeon input output reasonIfUnsupported =
     Inr (True, reasonIfUnsupported)"

definition IsConvertFp32ToFp16SupportedNeon ::
  "TensorInfo \<Rightarrow> TensorInfo \<Rightarrow> reason_out \<Rightarrow> verdict" where
  "IsConvertFp32ToFp16SupportedNeon input output reasonIfUnsupported =
     Inr (True, reasonIfUnsupported)"

section \<open>The contract of the reason parameter\<close>

text \<open>
  What a predicate called with the reason parameter \<open>reason\<close> may return: it never
  faults on the reason parameter; when it returns true the parameter is as it was;
  a null parameter stays null. Nothing is said of other faults.
\<close>

definition keeps_reason_contract :: "reason_out \<Rightarrow> verdict \<Rightarrow> bool" where
  "keeps_reason_contract reason v =
     (case v of
        Inl e \<Rightarrow> e \<noteq> NullReasonDereference
      | Inr (ok, reason') \<Rightarrow> (ok \<longrightarrow> reason' = reason) \<and> (reason = None \<longrightarrow> reason' = None))"

section \<open>Auxiliary facts\<close>

lemma returning_Inr [simp]: "returning b (Inr r) = Inr (b, r)"
  by (simp add: returning_def)

lemma word_mod2: "(w :: 32 word) mod 2 = 0 \<longleftrightarrow> even (unat w)"
proof -
  have "unat (w mod 2) = unat w mod 2" by (simp add: unat_mod)
  moreover have "w mod 2 = 0 \<longleftrightarrow> unat (w mod 2) = 0" by (simp add: unat_eq_0)
  ultimately show ?thesis by (simp add: even_iff_mod_2_eq_zero)
qed

lemma IsNeonBackendSupported_unavailable:
  "IsNeonBackendSupported False reason =
     Inr (False, map_option (\<lambda>old. ''The armnn library has been built without NEON support'') reason)"
  by (cases reason) (simp_all add: IsNeonBackendSupported_def)

lemma IsNeonBackendSupported_available: "IsNeonBackendSupported True reason = Inr (True, reason)"
  by (simp add: IsNeonBackendSupported_def)

lemma IsWorkloadSupported_eq:
  "IsWorkloadSupported func reason args =
     Inr (error_code (func args) = OK,
          if error_code (func args) = OK then reason
          else map_option (\<lambda>old. error_description (func args)) reason)"
  by (cases reason) (simp_all add: IsWorkloadSupported_def Let_def)

lemma FORWARD_unavailable:
  "FORWARD_WORKLOAD_VALIDATE_FUNC False func reason args =
     Inr (False, map_option (\<lambda>old. ''The armnn library has been built without NEON support'') reason)"
  by (simp add: FORWARD_WORKLOAD_VALIDATE_FUNC_def IsNeonBackendSupported_unavailable)

lemma FORWARD_available:
  "FORWARD_WORKLOAD_VALIDATE_FUNC True func reason args = IsWorkloadSupported func reason args"
  by (simp add: FORWARD_WORKLOAD_VALIDATE_FUNC_def)

lemma IsSupportedForDataTypeNeon_unavailable:
  "IsSupportedForDataTypeNeon False reason dataType floatFuncPtr uint8FuncPtr =
     Inr (False, map_option (\<lambda>old. ''The armnn library has been built without NEON support'') reason)"
  by (simp add: IsSupportedForDataTypeNeon_def and_also_def IsNeonBackendSupported_unavailable)

lemma contract_backend: "keeps_reason_contract reason (IsNeonBackendSupported neon reason)"
  by (cases neon)
     (simp_all add: keeps_reason_contract_def IsNeonBackendSupported_unavailable
        IsNeonBackendSupported_available)

lemma contract_workload: "keeps_reason_contract reason (IsWorkloadSupported func reason args)"
  by (simp add: keeps_reason_contract_def IsWorkloadSupported_eq)

lemma contract_forward:
  "keeps_reason_contract reason (FORWARD_WORKLOAD_VALIDATE_FUNC neon func reason args)"
  by (simp add: FORWARD_WORKLOAD_VALIDATE_FUNC_def contract_backend contract_workload)

lemma contract_generic_true:
  "keeps_reason_contract reason
     (IsSupportedForDataTypeGeneric reason dataType TrueFunc TrueFunc TrueFunc)"
  by (cases dataType)
     (simp_all add: keeps_reason_contract_def IsSupportedForDataTypeGeneric_def TrueFunc_def)

lemma contract_generic_floor:
  "keeps_reason_contract reason
     (IsSupportedForDataTypeGeneric reason dataType FalseFuncF16 TrueFunc FalseFuncU8)"
  by (cases dataType)
     (simp_all add: keeps_reason_contract_def IsSupportedForDataTypeGeneric_def TrueFunc_def
        FalseFuncF16_def FalseFuncU8_def)

lemma contract_and_also:
  assumes "\<And>r. keeps_reason_contract r (b r)"
  shows "keeps_reason_contract reason (and_also (IsNeonBackendSupported neon reason) b)"
proof (cases neon)
  case True
  then show ?thesis
    by (simp add: and_also_def IsNeonBackendSupported_available assms)
next
  case False
  then show ?thesis
    by (simp add: and_also_def IsNeonBackendSupported_unavailable keeps_reason_contract_def)
qed

lemma contract_datatype_neon:
  "keeps_reason_contract reason
     (IsSupportedForDataTypeNeon neon reason dataType TrueFunc TrueFunc)"
  unfolding IsSupportedForDataTypeNeon_def
  by (rule contract_and_also) (rule contract_generic_true)

lemma contract_floor: "keeps_reason_contract reason (IsFloorSupportedNeon neon inputInfo outputInfo reason)"
  unfolding IsFloorSupportedNeon_def
  by (rule contract_and_also) (rule contract_generic_floor)

lemma contract_merger:
  "keeps_reason_contract reason (IsMergerSupportedNeon neon inputs mdesc reason)"
proof (cases inputs)
  case Nil
  then show ?thesis by (simp add: IsMergerSupportedNeon_def keeps_reason_contract_def)
next
  case (Cons p rest)
  then show ?thesis
    by (cases p) (simp_all add: IsMergerSupportedNeon_def contract_datatype_neon,
        simp add: keeps_reason_contract_def)
qed

lemma contract_normalization_params:
  "keeps_reason_contract reason (IsNeonNormalizationDescParamsSupported reason parameters)"
  by (cases reason)
     (simp_all add: IsNeonNormalizationDescParamsSupported_def keeps_reason_contract_def)

lemma contract_const: "keeps_reason_contract reason (Inr (b, reason))"
  by (simp add: keeps_reason_contract_def)

section \<open>The claims\<close>

subsection \<open>C1: the availability check\<close>

text \<open>
  Claim C1, as amended. In a build without NEON, every predicate that passes through
  the availability check rejects, for all tensor descriptors and parameters, and a
  supplied reason holds exactly the fixed diagnostic of \<open>IsNeonBackendSupported\<close>
  afterwards (a null reason stays null); no validate function and no data-type sentinel
  has a say. These are the predicates for activation, addition, batch normalization,
  constant, convolution, depthwise convolution, fully-connected when the input is not
  8-bit quantized, input, L2 normalization, merger (on a vector whose first pointer is
  valid), multiplication, normalization, output, permute, pooling, softmax, splitter,
  reshape and floor. The predicates for resize-bilinear, fake-quantization and LSTM,
  and fully-connected on an 8-bit quantized input, reject and leave the reason as it
  was. The two conversion predicates accept.
\<close>

theorem backend_unavailable_verdicts:
  "unavailable = Inr (False,
      map_option (\<lambda>old. ''The armnn library has been built without NEON support'') reason) \<Longrightarrow>
   IsActivationSupportedNeon False build conv nevalidate inputInfo outputInfo adesc reason = unavailable \<and>
   IsAdditionSupportedNeon False addvalidate inputA inputB outputInfo reason = unavailable \<and>
   IsBatchNormalizationSupportedNeon False bnvalidate inputInfo outputInfo mean var beta gamma
     bndesc reason = unavailable \<and>
   IsConstantSupportedNeon False outputInfo reason = unavailable \<and>
   IsConvolution2dSupportedNeon False convvalidate inputInfo outputInfo cdesc weights biases reason
     = unavailable \<and>
   IsDepthwiseConvolutionSupportedNeon False dwvalidate inputInfo outputInfo dwdesc weights biases
     reason = unavailable \<and>
   (m_DataType inputInfo \<noteq> QuantisedAsymm8 \<longrightarrow>
      IsFullyConnectedSupportedNeon False fcvalidate inputInfo outputInfo weights biases fcdesc reason
        = unavailable) \<and>
   IsInputSupportedNeon False inputInfo reason = unavailable \<and>
   IsL2NormalizationSupportedNeon False l2validate inputInfo outputInfo reason = unavailable \<and>
   IsMergerSupportedNeon False (Some inputInfo # inputs) mdesc reason = unavailable \<and>
   IsMultiplicationSupportedNeon False mulvalidate inputA inputB outputInfo reason = unavailable \<and>
   IsNormalizationSupportedNeon False normvalidate inputInfo outputInfo ndesc reason = unavailable \<and>
   IsOutputSupportedNeon False outputInfo reason = unavailable \<and>
   IsPermuteSupportedNeon False permvalidate inputInfo outputInfo pdesc reason = unavailable \<and>
   IsPooling2dSupportedNeon False poolvalidate inputInfo outputInfo pooldesc reason = unavailable \<and>
   IsSoftmaxSupportedNeon False smvalidate inputInfo outputInfo smdesc reason = unavailable \<and>
   IsSplitterSupportedNeon False inputInfo vdesc reason = unavailable \<and>
   IsReshapeSupportedNeon False inputInfo reason = unavailable \<and>
   IsFloorSupportedNeon False inputInfo outputInfo reason = unavailable \<and>
   (m_DataType inputInfo = QuantisedAsymm8 \<longrightarrow>
      IsFullyConnectedSupportedNeon False fcvalidate inputInfo outputInfo weights biases fcdesc reason
        = Inr (False, reason)) \<and>
   IsResizeBilinearSupportedNeon inputInfo reason = Inr (False, reason) \<and>
   IsFakeQuantizationSupportedNeon inputInfo fqdesc reason = Inr (False, reason) \<and>
   IsLstmSupportedNeon t1 t2 t3 t4 t5 t6 t7 ldesc t8 t9 t10 t11 t12 t13 t14 t15 t16
     p1 p2 p3 p4 p5 p6 p7 p8 reason = Inr (False, reason) \<and>
   IsConvertFp16ToFp32SupportedNeon inputInfo outputInfo reason = Inr (True, reason) \<and>
   IsConvertFp32ToFp16SupportedNeon inputInfo outputInfo reason = Inr (True, reason)"
  by (simp add: IsActivationSupportedNeon_def IsAdditionSupportedNeon_def
      IsBatchNormalizationSupportedNeon_def IsConstantSupportedNeon_def
      IsConvolution2dSupportedNeon_def IsDepthwiseConvolutionSupportedNeon_def
      IsFullyConnectedSupportedNeon_def IsInputSupportedNeon_def
      IsL2NormalizationSupportedNeon_def IsMergerSupportedNeon_def
      IsMultiplicationSupportedNeon_def
      IsNormalizationSupportedNeon_def IsOutputSupportedNeon_def IsPermuteSupportedNeon_def
      IsPooling2dSupportedNeon_def IsResizeBilinearSupportedNeon_def IsSoftmaxSupportedNeon_def
      IsSplitterSupportedNeon_def IsFakeQuantizationSupportedNeon_def IsReshapeSupportedNeon_def
      IsFloorSupportedNeon_def and_also_def
      IsLstmSupportedNeon_def IsConvertFp16ToFp32SupportedNeon_def
      IsConvertFp32ToFp16SupportedNeon_def
      FORWARD_unavailable IsSupportedForDataTypeNeon_unavailable
      IsNeonBackendSupported_unavailable)

text \<open>
  The amended claim at concrete inputs: addition and fully-connected on float32
  tensors with a supplied reason, floor with a null reason.
\<close>

theorem backend_unavailable_verdicts_witness:
  "IsAdditionSupportedNeon False (\<lambda>args. \<lparr>error_code = OK, error_description = []\<rparr>)
     \<lparr>m_DataType = Float32, m_Shape = [1, 2]\<rparr> \<lparr>m_DataType = Float32, m_Shape = [1, 2]\<rparr>
     \<lparr>m_DataType = Float32, m_Shape = [1, 2]\<rparr> (Some ''unset'')
     = Inr (False, Some ''The armnn library has been built without NEON support'') \<and>
   IsFullyConnectedSupportedNeon False
     (\<lambda>args. \<lparr>error_code = OK, error_description = []\<rparr>)
     \<lparr>m_DataType = Float32, m_Shape = [1, 2]\<rparr> \<lparr>m_DataType = Float32, m_Shape = [1, 2]\<rparr>
     \<lparr>m_DataType = Float32, m_Shape = [2, 2]\<rparr> \<lparr>m_DataType = Float32, m_Shape = [2]\<rparr>
     True (Some ''unset'')
     = Inr (False, Some ''The armnn library has been built without NEON support'') \<and>
   IsFloorSupportedNeon False \<lparr>m_DataType = Float32, m_Shape = [1, 2]\<rparr>
     \<lparr>m_DataType = Float32, m_Shape = [1, 2]\<rparr> None = Inr (False, None)"
proof -
  have set: "Inr (False, Some ''The armnn library has been built without NEON support'') =
      Inr (False, map_option
        (\<lambda>old. ''The armnn library has been built without NEON support'') (Some ''unset''))"
    by simp
  have null: "Inr (False, None) =
      Inr (False, map_option
        (\<lambda>old. ''The armnn library has been built without NEON support'') None)"
    by simp
  note with_reason = backend_unavailable_verdicts [OF set]
  note without_reason = backend_unavailable_verdicts [OF null]
  have addition: "IsAdditionSupportedNeon False
      (\<lambda>args. \<lparr>error_code = OK, error_description = []\<rparr>)
      \<lparr>m_DataType = Float32, m_Shape = [1, 2]\<rparr> \<lparr>m_DataType = Float32, m_Shape = [1, 2]\<rparr>
      \<lparr>m_DataType = Float32, m_Shape = [1, 2]\<rparr> (Some ''unset'')
      = Inr (False, Some ''The armnn library has been built without NEON support'')"
    by (rule with_reason [THEN conjunct2, THEN conjunct1])
  have fully_connected: "IsFullyConnectedSupportedNeon False
      (\<lambda>args. \<lparr>error_code = OK, error_description = []\<rparr>)
      \<lparr>m_DataType = Float32, m_Shape = [1, 2]\<rparr> \<lparr>m_DataType = Float32, m_Shape = [1, 2]\<rparr>
      \<lparr>m_DataType = Float32, m_Shape = [2, 2]\<rparr> \<lparr>m_DataType = Float32, m_Shape = [2]\<rparr>
      True (Some ''unset'')
      = Inr (False, Some ''The armnn library has been built without NEON support'')"
    by (rule with_reason [THEN conjunct2, THEN conjunct2, THEN conjunct2, THEN conjunct2, THEN conjunct2, THEN conjunct2, THEN conjunct1, THEN mp]) simp
  have floor: "IsFloorSupportedNeon False \<lparr>m_DataType = Float32, m_Shape = [1, 2]\<rparr>
      \<lparr>m_DataType = Float32, m_Shape = [1, 2]\<rparr> None = Inr (False, None)"
    by (rule without_reason [THEN conjunct2, THEN conjunct2, THEN conjunct2, THEN conjunct2, THEN conjunct2, THEN conjunct2, THEN conjunct2, THEN conjunct2, THEN conjunct2, THEN conjunct2, THEN conjunct2, THEN conjunct2, THEN conjunct2, THEN conjunct2, THEN conjunct2, THEN conjunct2, THEN conjunct2, THEN conjunct2, THEN conjunct1])
  from addition fully_connected floor show ?thesis by (intro conjI)
qed

text \<open>
  Claim C1 as stated fails: in a build without NEON, where the availability check itself rejects
  with the fixed diagnostic, the conversion predicate from 16-bit to 32-bit floats
  accepts, and the resize-bilinear predicate rejects without writing any diagnostic.
\<close>

theorem conversion_accepted_without_backend:
  "IsNeonBackendSupported False (Some ''unset'')
     = Inr (False, Some ''The armnn library has been built without NEON support'') \<and>
   IsConvertFp16ToFp32SupportedNeon \<lparr>m_DataType = Float16, m_Shape = [1, 2]\<rparr>
     \<lparr>m_DataType = Float32, m_Shape = [1, 2]\<rparr> (Some ''unset'') = Inr (True, Some ''unset'') \<and>
   IsResizeBilinearSupportedNeon \<lparr>m_DataType = Float32, m_Shape = [1, 2]\<rparr> (Some ''unset'')
     = Inr (False, Some ''unset'')"
  by (simp add: IsNeonBackendSupported_def IsConvertFp16ToFp32SupportedNeon_def
      IsResizeBilinearSupportedNeon_def)

subsection \<open>C2: categorically unsupported layers\<close>

text \<open>
  Claim C2. The predicates for resize-bilinear, fake-quantization and LSTM return
  false for every tensor descriptor, descriptor parameter and reason parameter. None
  of the three reads the build flag, so this holds in both builds; the reason is left
  as it was.
\<close>

theorem categorically_unsupported:
  "IsResizeBilinearSupportedNeon inputInfo reason = Inr (False, reason) \<and>
   IsFakeQuantizationSupportedNeon inputInfo fqdesc reason = Inr (False, reason) \<and>
   IsLstmSupportedNeon t1 t2 t3 t4 t5 t6 t7 ldesc t8 t9 t10 t11 t12 t13 t14 t15 t16
     p1 p2 p3 p4 p5 p6 p7 p8 reason = Inr (False, reason)"
  by (simp add: IsResizeBilinearSupportedNeon_def IsFakeQuantizationSupportedNeon_def
      IsLstmSupportedNeon_def)

subsection \<open>C3: fully-connected\<close>

text \<open>
  Claim C3. On an input whose data type is 8-bit asymmetric-quantized the
  fully-connected predicate returns false whatever the validate function and the build
  are. On a float32 input, in a build with NEON, its result is the one of
  \<open>IsWorkloadSupported\<close> on the validate function and the same configuration: true
  exactly when the status of the validate function has the code \<open>OK\<close>.
\<close>

theorem fully_connected_verdict:
  "(m_DataType inputInfo = QuantisedAsymm8 \<longrightarrow>
      IsFullyConnectedSupportedNeon neon fcvalidate inputInfo outputInfo weights biases fcdesc reason
        = Inr (False, reason)) \<and>
   (m_DataType inputInfo = Float32 \<longrightarrow>
      IsFullyConnectedSupportedNeon True fcvalidate inputInfo outputInfo weights biases fcdesc reason
        = IsWorkloadSupported fcvalidate reason (inputInfo, outputInfo, weights, biases, fcdesc) \<and>
      (\<exists>reason'.
         IsFullyConnectedSupportedNeon True fcvalidate inputInfo outputInfo weights biases fcdesc reason
           = Inr (error_code (fcvalidate (inputInfo, outputInfo, weights, biases, fcdesc)) = OK,
                  reason')))"
  by (simp add: IsFullyConnectedSupportedNeon_def FORWARD_available IsWorkloadSupported_eq)

text \<open>
  Claim C3 at concrete inputs: a quantized input with a validate function that would
  accept, and float32 inputs with an accepting and with a rejecting validate function.
\<close>

theorem fully_connected_verdict_witness:
  "IsFullyConnectedSupportedNeon True
     (\<lambda>args. \<lparr>error_code = OK, error_description = []\<rparr>)
     \<lparr>m_DataType = QuantisedAsymm8, m_Shape = [1, 2]\<rparr>
     \<lparr>m_DataType = QuantisedAsymm8, m_Shape = [1, 2]\<rparr>
     \<lparr>m_DataType = QuantisedAsymm8, m_Shape = [2, 2]\<rparr>
     \<lparr>m_DataType = OtherDataType, m_Shape = [2]\<rparr> True (Some ''unset'')
     = Inr (False, Some ''unset'') \<and>
   IsFullyConnectedSupportedNeon True
     (\<lambda>args. \<lparr>error_code = OK, error_description = []\<rparr>)
     \<lparr>m_DataType = Float32, m_Shape = [1, 2]\<rparr> \<lparr>m_DataType = Float32, m_Shape = [1, 2]\<rparr>
     \<lparr>m_DataType = Float32, m_Shape = [2, 2]\<rparr> \<lparr>m_DataType = Float32, m_Shape = [2]\<rparr>
     True (Some ''unset'')
     = Inr (True, Some ''unset'') \<and>
   IsFullyConnectedSupportedNeon True
     (\<lambda>args. \<lparr>error_code = RUNTIME_ERROR, error_description = ''bias shape''\<rparr>)
     \<lparr>m_DataType = Float32, m_Shape = [1, 2]\<rparr> \<lparr>m_DataType = Float32, m_Shape = [1, 2]\<rparr>
     \<lparr>m_DataType = Float32, m_Shape = [2, 2]\<rparr> \<lparr>m_DataType = Float32, m_Shape = [3]\<rparr>
     True (Some ''unset'')
     = Inr (False, Some ''bias shape'')"
  using fully_connected_verdict
    [where neon = True
       and fcvalidate = "\<lambda>args. \<lparr>error_code = OK, error_description = []\<rparr>"
       and inputInfo = "\<lparr>m_DataType = QuantisedAsymm8, m_Shape = [1, 2]\<rparr>"
       and outputInfo = "\<lparr>m_DataType = QuantisedAsymm8, m_Shape = [1, 2]\<rparr>"
       and weights = "\<lparr>m_DataType = QuantisedAsymm8, m_Shape = [2, 2]\<rparr>"
       and biases = "\<lparr>m_DataType = OtherDataType, m_Shape = [2]\<rparr>"
       and fcdesc = True and reason = "Some ''unset''"]
    fully_connected_verdict
    [where fcvalidate = "\<lambda>args. \<lparr>error_code = OK, error_description = []\<rparr>"
       and inputInfo = "\<lparr>m_DataType = Float32, m_Shape = [1, 2]\<rparr>"
       and outputInfo = "\<lparr>m_DataType = Float32, m_Shape = [1, 2]\<rparr>"
       and weights = "\<lparr>m_DataType = Float32, m_Shape = [2, 2]\<rparr>"
       and biases = "\<lparr>m_DataType = Float32, m_Shape = [2]\<rparr>"
       and fcdesc = True and reason = "Some ''unset''"]
    fully_connected_verdict
    [where fcvalidate =
         "\<lambda>args. \<lparr>error_code = RUNTIME_ERROR, error_description = ''bias shape''\<rparr>"
       and inputInfo = "\<lparr>m_DataType = Float32, m_Shape = [1, 2]\<rparr>"
       and outputInfo = "\<lparr>m_DataType = Float32, m_Shape = [1, 2]\<rparr>"
       and weights = "\<lparr>m_DataType = Float32, m_Shape = [2, 2]\<rparr>"
       and biases = "\<lparr>m_DataType = Float32, m_Shape = [3]\<rparr>"
       and fcdesc = True and reason = "Some ''unset''"]
  by (simp add: IsWorkloadSupported_def)

subsection \<open>C4: normalization parameters\<close>

text \<open>
  Claim C4. \<open>IsNeonNormalizationDescParamsSupported\<close> always returns, and returns
  true exactly when the method is \<open>LocalBrightness\<close> and the size is odd; then the
  reason is as it was. With \<open>LocalBrightness\<close> and an even size it returns false and
  a supplied reason holds a diagnostic that contains the words "odd number".
\<close>

theorem normalization_params_verdict:
  "(\<exists>reason'. IsNeonNormalizationDescParamsSupported reason parameters =
      Inr (m_NormMethodType parameters = LocalBrightness \<and> odd (unat (m_NormSize parameters)),
           reason')) \<and>
   (m_NormMethodType parameters = LocalBrightness \<and> odd (unat (m_NormSize parameters)) \<longrightarrow>
      IsNeonNormalizationDescParamsSupported reason parameters = Inr (True, reason)) \<and>
   (m_NormMethodType parameters = LocalBrightness \<and> even (unat (m_NormSize parameters)) \<longrightarrow>
      IsNeonNormalizationDescParamsSupported reason parameters =
        Inr (False, map_option (\<lambda>old. ''Normalization size must be an odd number.'') reason) \<and>
      sublist ''odd number'' ''Normalization size must be an odd number.'')"
proof -
  have "''Normalization size must be an odd number.'' =
      ''Normalization size must be an '' @ ''odd number'' @ ''.''"
    by simp
  then have named: "sublist ''odd number'' ''Normalization size must be an odd number.''"
    unfolding sublist_def by blast
  show ?thesis
    by (cases reason)
       (simp_all add: IsNeonNormalizationDescParamsSupported_def word_mod2 named)
qed

text \<open>
  Claim C4 at the sizes 4 (with and without a reason), 3, 5 and 7.
\<close>

theorem normalization_params_verdict_witness:
  "IsNeonNormalizationDescParamsSupported (Some ''unset'')
     \<lparr>m_NormMethodType = LocalBrightness, m_NormSize = 4\<rparr>
     = Inr (False, Some ''Normalization size must be an odd number.'') \<and>
   IsNeonNormalizationDescParamsSupported None
     \<lparr>m_NormMethodType = LocalBrightness, m_NormSize = 4\<rparr> = Inr (False, None) \<and>
   IsNeonNormalizationDescParamsSupported (Some ''unset'')
     \<lparr>m_NormMethodType = LocalBrightness, m_NormSize = 3\<rparr> = Inr (True, Some ''unset'') \<and>
   IsNeonNormalizationDescParamsSupported (Some ''unset'')
     \<lparr>m_NormMethodType = LocalBrightness, m_NormSize = 5\<rparr> = Inr (True, Some ''unset'') \<and>
   IsNeonNormalizationDescParamsSupported (Some ''unset'')
     \<lparr>m_NormMethodType = LocalBrightness, m_NormSize = 7\<rparr> = Inr (True, Some ''unset'')"
  using normalization_params_verdict
      [of "Some ''unset''" "\<lparr>m_NormMethodType = LocalBrightness, m_NormSize = 4\<rparr>"]
    normalization_params_verdict
      [of None "\<lparr>m_NormMethodType = LocalBrightness, m_NormSize = 4\<rparr>"]
    normalization_params_verdict
      [of "Some ''unset''" "\<lparr>m_NormMethodType = LocalBrightness, m_NormSize = 3\<rparr>"]
    normalization_params_verdict
      [of "Some ''unset''" "\<lparr>m_NormMethodType = LocalBrightness, m_NormSize = 5\<rparr>"]
    normalization_params_verdict
      [of "Some ''unset''" "\<lparr>m_NormMethodType = LocalBrightness, m_NormSize = 7\<rparr>"]
  by simp

subsection \<open>C5: the preference for direct convolution\<close>

text \<open>
  Claim C5. On weights whose shape has the dimensions 2 and 3, that is at least four
  dimensions, \<open>IsNeonDirectConvolutionPreferred\<close> returns a boolean, and it is true
  exactly when the data type of the weights is float32, both strides are 1, 2 or 3, the
  dimensions 2 and 3 of the shape are both 1, the four paddings are 0 and the bias is
  enabled; otherwise it is false.
\<close>

theorem direct_convolution_preferred_verdict:
  "4 \<le> length (m_Shape weightInfo) \<Longrightarrow>
   IsNeonDirectConvolutionPreferred weightInfo desc =
     Inr (m_DataType weightInfo = Float32 \<and>
          m_StrideX desc \<in> {1, 2, 3} \<and> m_StrideY desc \<in> {1, 2, 3} \<and>
          m_Shape weightInfo ! 2 = 1 \<and> m_Shape weightInfo ! 3 = 1 \<and>
          m_PadLeft desc = 0 \<and> m_PadRight desc = 0 \<and>
          m_PadTop desc = 0 \<and> m_PadBottom desc = 0 \<and>
          m_BiasEnabled desc)"
  by (auto simp: IsNeonDirectConvolutionPreferred_def paddingLargerThan_def shape_at_def
      Let_def word_greater_zero_iff)

text \<open>
  Claim C5 at concrete inputs, each obtained from the theorem: float32 weights of
  shape 8x3x1x1, strides (1, 1), no padding and bias give true; a left padding of 1,
  a disabled bias, 16-bit float weights, a 3x3 kernel, a 7x1 kernel and a stride of 4
  each give false.
\<close>

theorem direct_convolution_preferred_verdict_witness:
  "IsNeonDirectConvolutionPreferred \<lparr>m_DataType = Float32, m_Shape = [8, 3, 1, 1]\<rparr>
     \<lparr>m_PadLeft = 0, m_PadRight = 0, m_PadTop = 0, m_PadBottom = 0,
      m_StrideX = 1, m_StrideY = 1, m_BiasEnabled = True\<rparr> = Inr True \<and>
   IsNeonDirectConvolutionPreferred \<lparr>m_DataType = Float32, m_Shape = [8, 3, 1, 1]\<rparr>
     \<lparr>m_PadLeft = 1, m_PadRight = 0, m_PadTop = 0, m_PadBottom = 0,
      m_StrideX = 1, m_StrideY = 1, m_BiasEnabled = True\<rparr> = Inr False \<and>
   IsNeonDirectConvolutionPreferred \<lparr>m_DataType = Float32, m_Shape = [8, 3, 1, 1]\<rparr>
     \<lparr>m_PadLeft = 0, m_PadRight = 0, m_PadTop = 0, m_PadBottom = 0,
      m_StrideX = 1, m_StrideY = 1, m_BiasEnabled = False\<rparr> = Inr False \<and>
   IsNeonDirectConvolutionPreferred \<lparr>m_DataType = Float16, m_Shape = [8, 3, 1, 1]\<rparr>
     \<lparr>m_PadLeft = 0, m_PadRight = 0, m_PadTop = 0, m_PadBottom = 0,
      m_StrideX = 1, m_StrideY = 1, m_BiasEnabled = True\<rparr> = Inr False \<and>
   IsNeonDirectConvolutionPreferred \<lparr>m_DataType = Float32, m_Shape = [8, 3, 3, 3]\<rparr>
     \<lparr>m_PadLeft = 0, m_PadRight = 0, m_PadTop = 0, m_PadBottom = 0,
      m_StrideX = 1, m_StrideY = 1, m_BiasEnabled = True\<rparr> = Inr False \<and>
   IsNeonDirectConvolutionPreferred \<lparr>m_DataType = Float32, m_Shape = [8, 3, 7, 1]\<rparr>
     \<lparr>m_PadLeft = 0, m_PadRight = 0, m_PadTop = 0, m_PadBottom = 0,
      m_StrideX = 1, m_StrideY = 1, m_BiasEnabled = True\<rparr> = Inr False \<and>
   IsNeonDirectConvolutionPreferred \<lparr>m_DataType = Float32, m_Shape = [8, 3, 1, 1]\<rparr>
     \<lparr>m_PadLeft = 0, m_PadRight = 0, m_PadTop = 0, m_PadBottom = 0,
      m_StrideX = 4, m_StrideY = 1, m_BiasEnabled = True\<rparr> = Inr False"
  using direct_convolution_preferred_verdict
      [of "\<lparr>m_DataType = Float32, m_Shape = [8, 3, 1, 1]\<rparr>"
          "\<lparr>m_PadLeft = 0, m_PadRight = 0, m_PadTop = 0, m_PadBottom = 0,
            m_StrideX = 1, m_StrideY = 1, m_BiasEnabled = True\<rparr>"]
    direct_convolution_preferred_verdict
      [of "\<lparr>m_DataType = Float32, m_Shape = [8, 3, 1, 1]\<rparr>"
          "\<lparr>m_PadLeft = 1, m_PadRight = 0, m_PadTop = 0, m_PadBottom = 0,
            m_StrideX = 1, m_StrideY = 1, m_BiasEnabled = True\<rparr>"]
    direct_convolution_preferred_verdict
      [of "\<lparr>m_DataType = Float32, m_Shape = [8, 3, 1, 1]\<rparr>"
          "\<lparr>m_PadLeft = 0, m_PadRight = 0, m_PadTop = 0, m_PadBottom = 0,
            m_StrideX = 1, m_StrideY = 1, m_BiasEnabled = False\<rparr>"]
    direct_convolution_preferred_verdict
      [of "\<lparr>m_DataType = Float16, m_Shape = [8, 3, 1, 1]\<rparr>"
          "\<lparr>m_PadLeft = 0, m_PadRight = 0, m_PadTop = 0, m_PadBottom = 0,
            m_StrideX = 1, m_StrideY = 1, m_BiasEnabled = True\<rparr>"]
    direct_convolution_preferred_verdict
      [of "\<lparr>m_DataType = Float32, m_Shape = [8, 3, 3, 3]\<rparr>"
          "\<lparr>m_PadLeft = 0, m_PadRight = 0, m_PadTop = 0, m_PadBottom = 0,
            m_StrideX = 1, m_StrideY = 1, m_BiasEnabled = True\<rparr>"]
    direct_convolution_preferred_verdict
      [of "\<lparr>m_DataType = Float32, m_Shape = [8, 3, 7, 1]\<rparr>"
          "\<lparr>m_PadLeft = 0, m_PadRight = 0, m_PadTop = 0, m_PadBottom = 0,
            m_StrideX = 1, m_StrideY = 1, m_BiasEnabled = True\<rparr>"]
    direct_convolution_preferred_verdict
      [of "\<lparr>m_DataType = Float32, m_Shape = [8, 3, 1, 1]\<rparr>"
          "\<lparr>m_PadLeft = 0, m_PadRight = 0, m_PadTop = 0, m_PadBottom = 0,
            m_StrideX = 4, m_StrideY = 1, m_BiasEnabled = True\<rparr>"]
  by simp

subsection \<open>C7: the translation of the status\<close>

text \<open>
  Claim C7. \<open>IsWorkloadSupported\<close> returns true when the status of the validate
  function has the code \<open>OK\<close>, leaving the reason as it was, and false for every other
  status; then a supplied reason holds the description of the status, unchanged, and
  a null reason stays null.
\<close>

theorem status_translation:
  "IsWorkloadSupported func reason args =
     Inr (error_code (func args) = OK,
          if error_code (func args) = OK then reason
          else map_option (\<lambda>old. error_description (func args)) reason)"
  by (cases reason) (simp_all add: IsWorkloadSupported_def Let_def)

text \<open>
  Claim C7 at concrete inputs: a status \<open>OK\<close>, and a status \<open>RUNTIME_ERROR\<close> with
  and without a reason.
\<close>

theorem status_translation_witness:
  "IsWorkloadSupported (\<lambda>args. \<lparr>error_code = OK, error_description = ''ignored''\<rparr>)
     (Some ''unset'') () = Inr (True, Some ''unset'') \<and>
   IsWorkloadSupported
     (\<lambda>args. \<lparr>error_code = RUNTIME_ERROR, error_description = ''Unsupported stride''\<rparr>)
     (Some ''unset'') () = Inr (False, Some ''Unsupported stride'') \<and>
   IsWorkloadSupported
     (\<lambda>args. \<lparr>error_code = RUNTIME_ERROR, error_description = ''Unsupported stride''\<rparr>)
     None () = Inr (False, None)"
  using status_translation
      [of "\<lambda>args. \<lparr>error_code = OK, error_description = ''ignored''\<rparr>" "Some ''unset''" "()"]
    status_translation
      [of "\<lambda>args. \<lparr>error_code = RUNTIME_ERROR, error_description = ''Unsupported stride''\<rparr>"
          "Some ''unset''" "()"]
    status_translation
      [of "\<lambda>args. \<lparr>error_code = RUNTIME_ERROR, error_description = ''Unsupported stride''\<rparr>"
          None "()"]
  by simp

subsection \<open>C8: the reason parameter\<close>

text \<open>
  Claim C8. Every predicate of \<open>NeonLayerSupport.cpp\<close> that takes a reason
  parameter keeps the contract of the reason parameter, on every input and in both
  builds: a store through the reason parameter never faults, so a null parameter is
  tolerated and stays null, and when the predicate returns true the reason is as it
  was. For the predicates that go through the data-type dispatch this rests on the
  dispatch helper and the sentinels as modelled above.
\<close>

theorem reason_untouched_on_accept_and_null_tolerated:
  "keeps_reason_contract reason
     (IsActivationSupportedNeon neon build conv nevalidate inputInfo outputInfo adesc reason) \<and>
   keeps_reason_contract reason
     (IsAdditionSupportedNeon neon addvalidate inputA inputB outputInfo reason) \<and>
   keeps_reason_contract reason
     (IsBatchNormalizationSupportedNeon neon bnvalidate inputInfo outputInfo mean var beta gamma
        bndesc reason) \<and>
   keeps_reason_contract reason (IsConstantSupportedNeon neon outputInfo reason) \<and>
   keeps_reason_contract reason
     (IsConvolution2dSupportedNeon neon convvalidate inputInfo outputInfo cdesc weights biases reason) \<and>
   keeps_reason_contract reason
     (IsDepthwiseConvolutionSupportedNeon neon dwvalidate inputInfo outputInfo dwdesc weights biases
        reason) \<and>
   keeps_reason_contract reason
     (IsFullyConnectedSupportedNeon neon fcvalidate inputInfo outputInfo weights biases fcdesc reason) \<and>
   keeps_reason_contract reason (IsInputSupportedNeon neon inputInfo reason) \<and>
   keeps_reason_contract reason
     (IsL2NormalizationSupportedNeon neon l2validate inputInfo outputInfo reason) \<and>
   keeps_reason_contract reason (IsMergerSupportedNeon neon inputs mdesc reason) \<and>
   keeps_reason_contract reason
     (IsMultiplicationSupportedNeon neon mulvalidate inputA inputB outputInfo reason) \<and>
   keeps_reason_contract reason
     (IsNormalizationSupportedNeon neon normvalidate inputInfo outputInfo ndesc reason) \<and>
   keeps_reason_contract reason (IsOutputSupportedNeon neon outputInfo reason) \<and>
   keeps_reason_contract reason
     (IsPermuteSupportedNeon neon permvalidate inputInfo outputInfo pdesc reason) \<and>
   keeps_reason_contract reason
     (IsPooling2dSupportedNeon neon poolvalidate inputInfo outputInfo pooldesc reason) \<and>
   keeps_reason_contract reason (IsResizeBilinearSupportedNeon inputInfo reason) \<and>
   keeps_reason_contract reason
     (IsSoftmaxSupportedNeon neon smvalidate inputInfo outputInfo smdesc reason) \<and>
   keeps_reason_contract reason (IsSplitterSupportedNeon neon inputInfo vdesc reason) \<and>
   keeps_reason_contract reason (IsFakeQuantizationSupportedNeon inputInfo fqdesc reason) \<and>
   keeps_reason_contract reason (IsReshapeSupportedNeon neon inputInfo reason) \<and>
   keeps_reason_contract reason (IsFloorSupportedNeon neon inputInfo outputInfo reason) \<and>
   keeps_reason_contract reason
     (IsLstmSupportedNeon t1 t2 t3 t4 t5 t6 t7 ldesc t8 t9 t10 t11 t12 t13 t14 t15 t16
        p1 p2 p3 p4 p5 p6 p7 p8 reason) \<and>
   keeps_reason_contract reason (IsConvertFp16ToFp32SupportedNeon inputInfo outputInfo reason) \<and>
   keeps_reason_contract reason (IsConvertFp32ToFp16SupportedNeon inputInfo outputInfo reason) \<and>
   keeps_reason_contract reason (IsNeonNormalizationDescParamsSupported reason ndesc) \<and>
   keeps_reason_contract reason (IsNeonBackendSupported neon reason)"
  by (simp add: IsActivationSupportedNeon_def IsAdditionSupportedNeon_def
      IsBatchNormalizationSupportedNeon_def IsConstantSupportedNeon_def
      IsConvolution2dSupportedNeon_def IsDepthwiseConvolutionSupportedNeon_def
      IsFullyConnectedSupportedNeon_def IsInputSupportedNeon_def
      IsL2NormalizationSupportedNeon_def IsMultiplicationSupportedNeon_def
      IsNormalizationSupportedNeon_def IsOutputSupportedNeon_def IsPermuteSupportedNeon_def
      IsPooling2dSupportedNeon_def IsResizeBilinearSupportedNeon_def IsSoftmaxSupportedNeon_def
      IsSplitterSupportedNeon_def IsFakeQuantizationSupportedNeon_def IsReshapeSupportedNeon_def
      IsLstmSupportedNeon_def IsConvertFp16ToFp32SupportedNeon_def
      IsConvertFp32ToFp16SupportedNeon_def
      contract_forward contract_datatype_neon contract_floor contract_merger
      contract_normalization_params contract_backend contract_const)

text \<open>
  Claim C8 at concrete inputs: the addition predicate accepting with a supplied
  reason, which is as it was afterwards, and rejecting with a null reason.
\<close>

theorem reason_contract_witness:
  "keeps_reason_contract (Some ''unset'')
     (IsAdditionSupportedNeon True (\<lambda>args. \<lparr>error_code = OK, error_description = []\<rparr>)
        \<lparr>m_DataType = Float32, m_Shape = [1, 2]\<rparr> \<lparr>m_DataType = Float32, m_Shape = [1, 2]\<rparr>
        \<lparr>m_DataType = Float32, m_Shape = [1, 2]\<rparr> (Some ''unset'')) \<and>
   IsAdditionSupportedNeon True (\<lambda>args. \<lparr>error_code = OK, error_description = []\<rparr>)
        \<lparr>m_DataType = Float32, m_Shape = [1, 2]\<rparr> \<lparr>m_DataType = Float32, m_Shape = [1, 2]\<rparr>
        \<lparr>m_DataType = Float32, m_Shape = [1, 2]\<rparr> (Some ''unset'')
     = Inr (True, Some ''unset'') \<and>
   keeps_reason_contract None
     (IsAdditionSupportedNeon True
        (\<lambda>args. \<lparr>error_code = RUNTIME_ERROR, error_description = ''shapes differ''\<rparr>)
        \<lparr>m_DataType = Float32, m_Shape = [1, 2]\<rparr> \<lparr>m_DataType = Float32, m_Shape = [1, 3]\<rparr>
        \<lparr>m_DataType = Float32, m_Shape = [1, 2]\<rparr> None) \<and>
   IsAdditionSupportedNeon True
        (\<lambda>args. \<lparr>error_code = RUNTIME_ERROR, error_description = ''shapes differ''\<rparr>)
        \<lparr>m_DataType = Float32, m_Shape = [1, 2]\<rparr> \<lparr>m_DataType = Float32, m_Shape = [1, 3]\<rparr>
        \<lparr>m_DataType = Float32, m_Shape = [1, 2]\<rparr> None
     = Inr (False, None)"
proof -
  note addition = reason_untouched_on_accept_and_null_tolerated [THEN conjunct2, THEN conjunct1]
  have accepted: "keeps_reason_contract (Some ''unset'')
     (IsAdditionSupportedNeon True (\<lambda>args. \<lparr>error_code = OK, error_description = []\<rparr>)
        \<lparr>m_DataType = Float32, m_Shape = [1, 2]\<rparr> \<lparr>m_DataType = Float32, m_Shape = [1, 2]\<rparr>
        \<lparr>m_DataType = Float32, m_Shape = [1, 2]\<rparr> (Some ''unset''))"
    by (rule addition)
  have rejected: "keeps_reason_contract None
     (IsAdditionSupportedNeon True
        (\<lambda>args. \<lparr>error_code = RUNTIME_ERROR, error_description = ''shapes differ''\<rparr>)
        \<lparr>m_DataType = Float32, m_Shape = [1, 2]\<rparr> \<lparr>m_DataType = Float32, m_Shape = [1, 3]\<rparr>
        \<lparr>m_DataType = Float32, m_Shape = [1, 2]\<rparr> None)"
    by (rule addition)
  from accepted rejected show ?thesis
    by (simp add: IsAdditionSupportedNeon_def FORWARD_WORKLOAD_VALIDATE_FUNC_def
        IsWorkloadSupported_def)
qed

subsection \<open>C9: floor\<close>

text \<open>
  Claim C9. In a build with NEON the floor predicate returns false on every input
  whose data type is 16-bit float or 8-bit asymmetric-quantized and true on every
  input whose data type is float32. This rests on the dispatch helper and the
  sentinels as modelled above.
\<close>

theorem floor_data_types:
  "(m_DataType inputInfo = Float16 \<longrightarrow>
      (\<exists>reason'. IsFloorSupportedNeon True inputInfo outputInfo reason = Inr (False, reason'))) \<and>
   (m_DataType inputInfo = QuantisedAsymm8 \<longrightarrow>
      (\<exists>reason'. IsFloorSupportedNeon True inputInfo outputInfo reason = Inr (False, reason'))) \<and>
   (m_DataType inputInfo = Float32 \<longrightarrow>
      (\<exists>reason'. IsFloorSupportedNeon True inputInfo outputInfo reason = Inr (True, reason')))"
  by (simp add: IsFloorSupportedNeon_def and_also_def IsNeonBackendSupported_available
      IsSupportedForDataTypeGeneric_def TrueFunc_def FalseFuncF16_def FalseFuncU8_def)

text \<open>
  Claim C9 at one input of each of the three data types.
\<close>

theorem floor_data_types_witness:
  "map_sum id fst (IsFloorSupportedNeon True \<lparr>m_DataType = Float16, m_Shape = [2, 2]\<rparr>
       \<lparr>m_DataType = Float16, m_Shape = [2, 2]\<rparr> (Some ''unset'')) = Inr False \<and>
   map_sum id fst (IsFloorSupportedNeon True \<lparr>m_DataType = QuantisedAsymm8, m_Shape = [2, 2]\<rparr>
       \<lparr>m_DataType = QuantisedAsymm8, m_Shape = [2, 2]\<rparr> (Some ''unset'')) = Inr False \<and>
   map_sum id fst (IsFloorSupportedNeon True \<lparr>m_DataType = Float32, m_Shape = [2, 2]\<rparr>
       \<lparr>m_DataType = Float32, m_Shape = [2, 2]\<rparr> (Some ''unset'')) = Inr True"
  using floor_data_types
      [of "\<lparr>m_DataType = Float16, m_Shape = [2, 2]\<rparr>"
          "\<lparr>m_DataType = Float16, m_Shape = [2, 2]\<rparr>" "Some ''unset''"]
    floor_data_types
      [of "\<lparr>m_DataType = QuantisedAsymm8, m_Shape = [2, 2]\<rparr>"
          "\<lparr>m_DataType = QuantisedAsymm8, m_Shape = [2, 2]\<rparr>" "Some ''unset''"]
    floor_data_types
      [of "\<lparr>m_DataType = Float32, m_Shape = [2, 2]\<rparr>"
          "\<lparr>m_DataType = Float32, m_Shape = [2, 2]\<rparr>" "Some ''unset''"]
  by auto

subsection \<open>C10: logistic activation on quantized input\<close>

text \<open>
  Claim C10. When the data type of the input is 8-bit asymmetric-quantized and the
  converted activation function is \<open>LOGISTIC\<close>, \<open>NeonActivationWorkloadValidate\<close>
  returns the status \<open>RUNTIME_ERROR\<close> with its own description, whatever
  \<open>NEActivationLayer::validate\<close> would return and whatever the shapes are. The
  activation predicate then returns false in both builds; in a build with NEON a
  supplied reason holds that description.
\<close>

theorem quantised_logistic_rejected:
  "m_DataType inputInfo = QuantisedAsymm8 \<Longrightarrow> activation (conv adesc) = LOGISTIC \<Longrightarrow>
   NeonActivationWorkloadValidate build conv nevalidate (inputInfo, outputInfo, adesc) =
     \<lparr>error_code = RUNTIME_ERROR,
      error_description = ''Neon: Logistic Activations unsupported with QAsymm8 data type.''\<rparr> \<and>
   IsActivationSupportedNeon True build conv nevalidate inputInfo outputInfo adesc reason =
     Inr (False,
          map_option (\<lambda>old. ''Neon: Logistic Activations unsupported with QAsymm8 data type.'')
            reason) \<and>
   (\<exists>reason'. IsActivationSupportedNeon neon build conv nevalidate inputInfo outputInfo adesc
      reason = Inr (False, reason'))"
  by (cases neon)
     (simp_all add: NeonActivationWorkloadValidate_def IsActivationSupportedNeon_def
        FORWARD_available FORWARD_unavailable IsWorkloadSupported_eq)

text \<open>
  Claim C10 at a concrete input, with a kernel library that would accept.
\<close>

theorem quantised_logistic_rejected_witness:
  "NeonActivationWorkloadValidate (\<lambda>info. info) (\<lambda>f. \<lparr>activation = f\<rparr>)
     (\<lambda>args. \<lparr>error_code = OK, error_description = []\<rparr>)
     (\<lparr>m_DataType = QuantisedAsymm8, m_Shape = [1, 16]\<rparr>,
      \<lparr>m_DataType = QuantisedAsymm8, m_Shape = [1, 16]\<rparr>, LOGISTIC) =
     \<lparr>error_code = RUNTIME_ERROR,
      error_description = ''Neon: Logistic Activations unsupported with QAsymm8 data type.''\<rparr> \<and>
   IsActivationSupportedNeon True (\<lambda>info. info) (\<lambda>f. \<lparr>activation = f\<rparr>)
     (\<lambda>args. \<lparr>error_code = OK, error_description = []\<rparr>)
     \<lparr>m_DataType = QuantisedAsymm8, m_Shape = [1, 16]\<rparr>
     \<lparr>m_DataType = QuantisedAsymm8, m_Shape = [1, 16]\<rparr> LOGISTIC (Some ''unset'') =
     Inr (False, Some ''Neon: Logistic Activations unsupported with QAsymm8 data type.'')"
  using quantised_logistic_rejected
    [where inputInfo = "\<lparr>m_DataType = QuantisedAsymm8, m_Shape = [1, 16]\<rparr>"
       and outputInfo = "\<lparr>m_DataType = QuantisedAsymm8, m_Shape = [1, 16]\<rparr>"
       and conv = "\<lambda>f. \<lparr>activation = f\<rparr>" and adesc = LOGISTIC
       and build = "\<lambda>info. info"
       and nevalidate = "\<lambda>args. \<lparr>error_code = OK, error_description = []\<rparr>"
       and reason = "Some ''unset''" and neon = True]
  by simp

end
